theory Spec2Isabelle
  imports Complex_Main
begin

section \<open>JavaScript values\<close>

text \<open>
  A JavaScript string is a sequence of UTF-16 code units; a code unit is modelled as a
  natural number.  \<open>js\<close> turns an ASCII literal of the source into such a sequence.
\<close>

type_synonym jsstring = "nat list"

definition js :: "string \<Rightarrow> jsstring" where
  "js s = map of_char s"

text \<open>
  \<open>String.prototype.trim\<close> removes WhiteSpace and LineTerminator code units from both
  ends: TAB, LF, VT, FF, CR, SP, NBSP, U+1680, U+2000..U+200A, U+2028, U+2029, U+202F,
  U+205F, U+3000 and U+FEFF.
\<close>

definition isWhiteSpace :: "nat \<Rightarrow> bool" where
  "isWhiteSpace c =
     (c \<in> set [9, 10, 11, 12, 13, 32, 160, 5760, 8232, 8233, 8239, 8287, 12288, 65279]
      \<or> (8192 \<le> c \<and> c \<le> 8202))"

definition trim :: "jsstring \<Rightarrow> jsstring" where
  "trim s = rev (dropWhile isWhiteSpace (rev (dropWhile isWhiteSpace s)))"

text \<open>A string is truthy when it is not empty.\<close>

definition truthy :: "jsstring \<Rightarrow> bool" where
  "truthy s = (s \<noteq> [])"

text \<open>Decimal rendering of a non-negative integer, as a template literal does it.\<close>

function showNat :: "nat \<Rightarrow> jsstring" where
  "showNat n = (if n < 10 then [48 + n] else showNat (n div 10) @ [48 + n mod 10])"
  by pat_completeness auto
termination
  by (relation "measure id") auto

declare showNat.simps [simp del]

definition showInt :: "int \<Rightarrow> jsstring" where
  "showInt i = (if i < 0 then 45 # showNat (nat (- i)) else showNat (nat i))"

text \<open>
  Values as they come out of \<open>JSON.parse\<close> or are passed as props, with \<open>undefined\<close>.
  An object is its list of properties.  Numbers are restricted to integers.
\<close>

datatype jsvalue =
    JUndefined
  | JNull
  | JBool bool
  | JNum int
  | JStr jsstring
  | JArr "jsvalue list"
  | JObj "(jsstring \<times> jsvalue) list"

datatype js_error =
    Error jsstring
  | TypeError
  | SyntaxError

text \<open>
  \<open>v.name\<close>, for a name that no built-in prototype defines (\<open>text\<close>, \<open>timestamp\<close>,
  \<open>choices\<close>, \<open>message\<close>, \<open>content\<close>): reading a property of \<open>undefined\<close> or
  \<open>null\<close> throws a TypeError, a missing property is \<open>undefined\<close>.
\<close>

fun getProp :: "jsvalue \<Rightarrow> jsstring \<Rightarrow> js_error + jsvalue" where
  "getProp JUndefined k = Inl TypeError"
| "getProp JNull k = Inl TypeError"
| "getProp (JObj fs) k = Inr (case map_of fs k of None \<Rightarrow> JUndefined | Some v \<Rightarrow> v)"
| "getProp v k = Inr JUndefined"

text \<open>\<open>v[0]\<close>.\<close>

fun getFirst :: "jsvalue \<Rightarrow> js_error + jsvalue" where
  "getFirst JUndefined = Inl TypeError"
| "getFirst JNull = Inl TypeError"
| "getFirst (JArr xs) = Inr (case xs of [] \<Rightarrow> JUndefined | x # _ \<Rightarrow> x)"
| "getFirst (JStr s) = Inr (case s of [] \<Rightarrow> JUndefined | c # _ \<Rightarrow> JStr [c])"
| "getFirst (JObj fs) = Inr (case map_of fs (js ''0'') of None \<Rightarrow> JUndefined | Some v \<Rightarrow> v)"
| "getFirst v = Inr JUndefined"

text \<open>\<open>v.trim()\<close>: only a string has the method.\<close>

fun callTrim :: "jsvalue \<Rightarrow> js_error + jsstring" where
  "callTrim (JStr s) = Inr (trim s)"
| "callTrim v = Inl TypeError"

definition andThen :: "'e + 'a \<Rightarrow> ('a \<Rightarrow> 'e + 'b) \<Rightarrow> 'e + 'b" where
  "andThen r f = (case r of Inl e \<Rightarrow> Inl e | Inr x \<Rightarrow> f x)"

section \<open>Messages and the chat window (components/ChatWindow.jsx)\<close>

definition USER :: jsstring where
  "USER = js ''user''"

definition ADMIN :: jsstring where
  "ADMIN = js ''admin''"

record message =
  sender :: jsstring
  content :: jsstring
  createdAt :: jsstring

text \<open>Events the client sends over the socket, and its writes to \<open>localStorage\<close>.\<close>

datatype outbound =
    Init_session jsstring
  | User_message "jsstring option" jsstring
  | Admin_message jsstring jsstring
  | Get_sessions

datatype effect =
    StorageSet jsstring jsstring
  | SocketEmit outbound

text \<open>
  The state of the chat window: the \<open>useState\<close> cells \<open>messages\<close>, \<open>messageText\<close> and
  \<open>currentSessionId\<close> (initially \<open>[]\<close>, \<open>''\<close> and \<open>null\<close>), the browser's
  \<open>localStorage\<close>, and the log of what the component has written to storage and emitted
  on the socket, in order.
\<close>

record chat_window =
  messages :: "message list"
  messageText :: jsstring
  currentSessionId :: "jsstring option"
  localStorage :: "jsstring \<rightharpoonup> jsstring"
  effects :: "effect list"

definition initialWindow :: "(jsstring \<rightharpoonup> jsstring) \<Rightarrow> chat_window" where
  "initialWindow store =
     \<lparr>messages = [], messageText = [], currentSessionId = None,
      localStorage = store, effects = []\<rparr>"

text \<open>
  \<open>sendMessage\<close>: the optimistic update.  \<open>now\<close> is what
  \<open>new Date().toISOString()\<close> returns at the call.
\<close>

definition sendMessage :: "jsstring \<Rightarrow> chat_window \<Rightarrow> chat_window" where
  "sendMessage now w =
     (if truthy (trim (messageText w)) then
        w\<lparr>messages := messages w @
             [\<lparr>sender = USER, content = trim (messageText w), createdAt = now\<rparr>],
          effects := effects w @
             [SocketEmit (User_message (currentSessionId w) (trim (messageText w)))],
          messageText := []\<rparr>
      else w)"

text \<open>\<open>handleMessage\<close>: the listener of the socket's \<open>message\<close> event.\<close>

definition handleMessage :: "message \<Rightarrow> chat_window \<Rightarrow> chat_window" where
  "handleMessage m w =
     (if sender m = ADMIN then w\<lparr>messages := messages w @ [m]\<rparr> else w)"

text \<open>
  The two things that reach the message list of one conversation: the user submits the
  text \<open>c\<close> at time \<open>t\<close> (the input holds \<open>c\<close> and \<open>sendMessage\<close> runs), or the
  socket delivers a message.
\<close>

datatype event =
    AppendLocal jsstring jsstring
  | MergeIncoming message

fun step :: "event \<Rightarrow> chat_window \<Rightarrow> chat_window" where
  "step (AppendLocal c t) w = sendMessage t (w\<lparr>messageText := c\<rparr>)"
| "step (MergeIncoming m) w = handleMessage m w"

fun run :: "event list \<Rightarrow> chat_window \<Rightarrow> chat_window" where
  "run [] w = w"
| "run (e # es) w = run es (step e w)"

text \<open>What one event adds to the visible sequence.\<close>

fun shown :: "event \<Rightarrow> message list" where
  "shown (AppendLocal c t) =
     (if truthy (trim c) then [\<lparr>sender = USER, content = trim c, createdAt = t\<rparr>] else [])"
| "shown (MergeIncoming m) = (if sender m = ADMIN then [m] else [])"

section \<open>The session identity effect (components/ChatWindow.jsx)\<close>

definition SESSION_KEY :: jsstring where
  "SESSION_KEY = js ''chatSessionId''"

text \<open>
  \<open>now\<close> is \<open>Date.now()\<close> and \<open>rnd\<close> is what
  \<open>Math.random().toString(36).substr(2, 9)\<close> evaluates to.
\<close>

definition newSessionId :: "nat \<Rightarrow> jsstring \<Rightarrow> jsstring" where
  "newSessionId now rnd = js ''session_'' @ showNat now @ js ''_'' @ rnd"

text \<open>
  The effect that runs when the chat window is mounted.  \<open>getItem\<close> returns \<open>null\<close>
  for a missing key; \<open>!sessionId\<close> holds for \<open>null\<close> and for the empty string.
\<close>

definition initSession :: "nat \<Rightarrow> jsstring \<Rightarrow> chat_window \<Rightarrow> chat_window" where
  "initSession now rnd w =
     (let fresh = newSessionId now rnd;
          stored = w\<lparr>localStorage := (localStorage w)(SESSION_KEY \<mapsto> fresh),
                     effects := effects w @ [StorageSet SESSION_KEY fresh]\<rparr>;
          (sessionId, w1) =
            (case localStorage w SESSION_KEY of
               None \<Rightarrow> (fresh, stored)
             | Some s \<Rightarrow> if \<not> truthy s then (fresh, stored) else (s, w))
      in w1\<lparr>currentSessionId := Some sessionId,
            effects := effects w1 @ [SocketEmit (Init_session sessionId)]\<rparr>)"

section \<open>The server's sequence, as the specification speaks of it\<close>

text \<open>
  The messages the server has pushed for the conversation, in the order it pushed them,
  and the messages the local actor originated, in call order.
\<close>

fun pushed :: "event list \<Rightarrow> message list" where
  "pushed [] = []"
| "pushed (MergeIncoming m # es) = m # pushed es"
| "pushed (AppendLocal c t # es) = pushed es"

fun originated :: "event list \<Rightarrow> message list" where
  "originated [] = []"
| "originated (AppendLocal c t # es) =
     (if truthy (trim c) then \<lparr>sender = USER, content = trim c, createdAt = t\<rparr> # originated es
      else originated es)"
| "originated (MergeIncoming m # es) = originated es"

text \<open>
  The invariant in the specification's words: a locally originated message is confirmed
  once the server has pushed it; the rendered sequence holds the server's messages and
  the unconfirmed local ones, none twice, the confirmed ones in the server's order.
\<close>

definition unconfirmed :: "event list \<Rightarrow> message list" where
  "unconfirmed tr = filter (\<lambda>m. m \<notin> set (pushed tr)) (originated tr)"

definition reconciled :: "event list \<Rightarrow> bool" where
  "reconciled tr =
     (let rendered = messages (run tr (initialWindow Map.empty)) in
        set rendered = set (pushed tr) \<union> set (unconfirmed tr) \<and>
        distinct rendered \<and>
        filter (\<lambda>m. m \<in> set (pushed tr)) rendered = pushed tr)"

section \<open>The operator's dashboard (admin/AdminDashboard.jsx)\<close>

text \<open>An entry of the roster: its identifier, and whatever else the server sends.\<close>

record session =
  sessionId :: jsstring
  summary :: jsvalue

record admin_dashboard =
  sessions :: "session list"
  selectedSession :: "session option"
  sessionMessages :: "message list"
  replyText :: jsstring
  activeFilter :: jsstring
  emitted :: "outbound list"

definition initialDashboard :: admin_dashboard where
  "initialDashboard =
     \<lparr>sessions = [], selectedSession = None, sessionMessages = [], replyText = [],
      activeFilter = js ''all'', emitted = []\<rparr>"

text \<open>\<open>handleSessionsList\<close>: the listener of the \<open>sessions-list\<close> event.\<close>

definition handleSessionsList :: "session list \<Rightarrow> admin_dashboard \<Rightarrow> admin_dashboard" where
  "handleSessionsList sessionsList d =
     (let d1 = d\<lparr>sessions := sessionsList\<rparr> in
      case selectedSession d of
        None \<Rightarrow> d1
      | Some sel \<Rightarrow>
          (case find (\<lambda>s. sessionId s = sessionId sel) sessionsList of
             None \<Rightarrow> d1
           | Some updatedSession \<Rightarrow> d1\<lparr>selectedSession := Some updatedSession\<rparr>))"

text \<open>\<open>sendReply\<close>; \<open>now\<close> is \<open>new Date().toISOString()\<close>.\<close>

definition sendReply :: "jsstring \<Rightarrow> admin_dashboard \<Rightarrow> admin_dashboard" where
  "sendReply now d =
     (if truthy (trim (replyText d)) then
        (case selectedSession d of
           None \<Rightarrow> d
         | Some sel \<Rightarrow>
             d\<lparr>sessionMessages := sessionMessages d @
                  [\<lparr>sender = ADMIN, content = trim (replyText d), createdAt = now\<rparr>],
               emitted := emitted d @ [Admin_message (sessionId sel) (trim (replyText d))],
               replyText := []\<rparr>)
      else d)"

section \<open>Submitting a sequence of texts\<close>

text \<open>
  The local actor submits the text \<open>c\<close> at time \<open>t\<close>: the input holds \<open>c\<close> and the
  send function runs.
\<close>

definition appendLocal :: "jsstring \<Rightarrow> jsstring \<Rightarrow> chat_window \<Rightarrow> chat_window" where
  "appendLocal c t w = sendMessage t (w\<lparr>messageText := c\<rparr>)"

fun appendLocals :: "(jsstring \<times> jsstring) list \<Rightarrow> chat_window \<Rightarrow> chat_window" where
  "appendLocals [] w = w"
| "appendLocals ((c, t) # cs) w = appendLocals cs (appendLocal c t w)"

definition reply :: "jsstring \<Rightarrow> jsstring \<Rightarrow> admin_dashboard \<Rightarrow> admin_dashboard" where
  "reply c t d = sendReply t (d\<lparr>replyText := c\<rparr>)"

fun replies :: "(jsstring \<times> jsstring) list \<Rightarrow> admin_dashboard \<Rightarrow> admin_dashboard" where
  "replies [] d = d"
| "replies ((c, t) # cs) d = replies cs (reply c t d)"

text \<open>The calls that carry text, and the entries they make.\<close>

definition nonBlank :: "jsstring \<times> jsstring \<Rightarrow> bool" where
  "nonBlank call = truthy (trim (fst call))"

definition entry :: "jsstring \<Rightarrow> jsstring \<times> jsstring \<Rightarrow> message" where
  "entry role call = \<lparr>sender = role, content = trim (fst call), createdAt = snd call\<rparr>"

section \<open>The shared socket (sockets/socket.js)\<close>

text \<open>
  The options of the call \<open>io(url, options)\<close> that creates the one socket all
  components import, as the README lists the file under "Connection Management".
\<close>

record socket_options =
  transports :: "jsstring list"
  reconnection :: bool
  reconnectionAttempts :: nat
  reconnectionDelay :: nat

definition socket :: "jsstring \<times> socket_options" where
  "socket =
     (js ''http://localhost:4000'',
      \<lparr>transports = [js ''websocket'', js ''polling''],
       reconnection = True,
       reconnectionAttempts = 5,
       reconnectionDelay = 1000\<rparr>)"

text \<open>
  Modelled from the spec: the states of the Connection Manager.  The client library that
  acts on the options is not part of the sources; section 4.3 of the specification has
  \<open>connected\<close>, \<open>reconnecting\<close> with the current retry count, and \<open>disconnected\<close>.
\<close>

datatype connection_state =
    Connected
  | Reconnecting nat
  | Disconnected

text \<open>
  Modelled from the spec: the choice of a transport.  The manager attempts the
  transports in the order of preference and falls back to the next one when a
  transport is blocked.  The result is the transports attempted, in order, and the one
  in use, if any.
\<close>

fun tryTransports :: "(jsstring \<Rightarrow> bool) \<Rightarrow> jsstring list \<Rightarrow> jsstring list \<times> jsstring option" where
  "tryTransports blocked [] = ([], None)"
| "tryTransports blocked (t # ts) =
     (if blocked t then
        (t # fst (tryTransports blocked ts), snd (tryTransports blocked ts))
      else ([t], Some t))"

text \<open>
  Modelled from the spec: reconnection after the transport is lost.  \<open>n\<close> is the number
  of attempts made so far and the list says, for each further attempt, whether it
  succeeds.  With reconnection enabled and attempts left, the manager waits the delay
  and attempts; a success leads to \<open>connected\<close>; once the attempts are exhausted the
  state is \<open>disconnected\<close>.  The result is the state reached and the delays waited.
\<close>

fun reconnect :: "socket_options \<Rightarrow> nat \<Rightarrow> bool list \<Rightarrow> connection_state \<times> nat list" where
  "reconnect opts n [] =
     (if reconnection opts \<and> n < reconnectionAttempts opts then (Reconnecting n, [])
      else (Disconnected, []))"
| "reconnect opts n (success # later) =
     (if reconnection opts \<and> n < reconnectionAttempts opts then
        (if success then (Connected, [reconnectionDelay opts])
         else (fst (reconnect opts (Suc n) later),
               reconnectionDelay opts # snd (reconnect opts (Suc n) later)))
      else (Disconnected, []))"

section \<open>HTTP\<close>

text \<open>The body of the completion request, before \<open>JSON.stringify\<close>.\<close>

record completion_request =
  model :: jsstring
  chat_messages :: "jsvalue list"
  max_tokens :: nat
  temperature :: rat

record http_request =
  url :: jsstring
  http_method :: jsstring
  headers :: "(jsstring \<times> jsstring) list"
  body :: "completion_request option"

text \<open>
  A response: its status, its \<open>ok\<close> flag, and what \<open>res.json()\<close> and \<open>res.text()\<close>
  settle to (either may reject).  \<open>fetch\<close> itself resolves to a response or rejects.
\<close>

record http_response =
  status :: nat
  ok :: bool
  jsonBody :: "js_error + jsvalue"
  textBody :: "js_error + jsstring"

type_synonym fetch = "http_request \<Rightarrow> js_error + http_response"

definition httpGet :: "jsstring \<Rightarrow> http_request" where
  "httpGet u = \<lparr>url = u, http_method = js ''GET'', headers = [], body = None\<rparr>"

section \<open>The retrieval interface (api/chatApi.js)\<close>

definition getChats :: "fetch \<Rightarrow> js_error + jsvalue" where
  "getChats fetch =
     andThen (fetch (httpGet (js ''http://localhost:4000/api/chats''))) (\<lambda>res. jsonBody res)"

definition getChatMessages :: "fetch \<Rightarrow> jsstring \<Rightarrow> js_error + jsvalue" where
  "getChatMessages fetch sid =
     andThen (fetch (httpGet (js ''http://localhost:4000/api/chats/'' @ sid)))
       (\<lambda>res. jsonBody res)"

section \<open>The completion service (utils/chatgpt.jsx)\<close>

record ChatGPTService =
  apiKey :: "jsstring option"
  apiUrl :: jsstring

text \<open>The constructor; \<open>key\<close> is \<open>import.meta.env.VITE_OPENAI_API_KEY\<close>.\<close>

definition newChatGPTService :: "jsstring option \<Rightarrow> ChatGPTService" where
  "newChatGPTService key =
     \<lparr>apiKey = key, apiUrl = js ''https://api.openai.com/v1/chat/completions''\<rparr>"

definition PLACEHOLDER_KEY :: jsstring where
  "PLACEHOLDER_KEY = js ''your_openai_api_key_here''"

definition KEY_NOT_CONFIGURED :: jsstring where
  "KEY_NOT_CONFIGURED = js ''OpenAI API key is not configured''"

definition API_ERROR_PREFIX :: jsstring where
  "API_ERROR_PREFIX = js ''OpenAI API error: ''"

text \<open>\<open>xs.slice(-n)\<close>: the last \<open>n\<close> elements, or all of them when there are fewer.\<close>

definition sliceLast :: "nat \<Rightarrow> 'a list \<Rightarrow> 'a list" where
  "sliceLast n xs = drop (length xs - n) xs"

text \<open>\<open>!this.apiKey || this.apiKey === 'your_openai_api_key_here'\<close>.\<close>

definition keyMissing :: "ChatGPTService \<Rightarrow> bool" where
  "keyMissing svc =
     (case apiKey svc of None \<Rightarrow> True | Some k \<Rightarrow> \<not> truthy k \<or> k = PLACEHOLDER_KEY)"

text \<open>\<open>data.choices[0].message.content.trim()\<close>.\<close>

definition completionText :: "jsvalue \<Rightarrow> js_error + jsstring" where
  "completionText data =
     andThen (getProp data (js ''choices'')) (\<lambda>choices.
     andThen (getFirst choices) (\<lambda>choice.
     andThen (getProp choice (js ''message'')) (\<lambda>msg.
     andThen (getProp msg (js ''content'')) callTrim)))"

text \<open>
  The page: the chat window, the dashboard, and the HTTP requests made so far.
\<close>

record page =
  widget :: chat_window
  dashboard :: admin_dashboard
  requests :: "http_request list"

text \<open>
  \<open>generateResponse\<close>.  The default of \<open>conversationHistory\<close> is \<open>[]\<close>.  The result is
  the returned text or the thrown error; the \<open>catch\<close> block logs and throws the error
  again.  Console output is left out.
\<close>

definition generateResponse ::
  "ChatGPTService \<Rightarrow> fetch \<Rightarrow> jsstring \<Rightarrow> jsvalue list option \<Rightarrow> page \<Rightarrow>
     (js_error + jsstring) \<times> page" where
  "generateResponse svc fetch userMessage conversationHistory p =
     (if keyMissing svc then (Inl (Error KEY_NOT_CONFIGURED), p)
      else
        let history = (case conversationHistory of None \<Rightarrow> [] | Some h \<Rightarrow> h);
            msgs =
              [JObj [(js ''role'', JStr (js ''system'')),
                     (js ''content'', JStr (js
    ''You are a helpful assistant. Provide concise, helpful responses to user questions.''))]] @
              sliceLast 5 history @
              [JObj [(js ''role'', JStr (js ''user'')), (js ''content'', JStr userMessage)]];
            requestBody = \<lparr>model = js ''gpt-3.5-turbo'', chat_messages = msgs,
                           max_tokens = 500, temperature = 7 / 10\<rparr>;
            key = (case apiKey svc of None \<Rightarrow> [] | Some k \<Rightarrow> k);
            req = \<lparr>url = apiUrl svc, http_method = js ''POST'',
                   headers = [(js ''Content-Type'', js ''application/json''),
                              (js ''Authorization'', js ''Bearer '' @ key)],
                   body = Some requestBody\<rparr>;
            p1 = p\<lparr>requests := requests p @ [req]\<rparr>
        in (andThen (fetch req) (\<lambda>response.
              if \<not> ok response then
                andThen (textBody response) (\<lambda>errorText.
                  Inl (Error (API_ERROR_PREFIX @ showNat (status response))))
              else andThen (jsonBody response) completionText),
            p1))"

section \<open>The message bubble (admin/components/MessageBubble.jsx)\<close>

text \<open>
  What React puts on the page for a child \<open>{v}\<close>: nothing for \<open>undefined\<close>, \<open>null\<close> and
  the booleans, the text of a string or a number, the children of an array one after the
  other; an object is not a valid child (\<open>None\<close>).
\<close>

fun renderChild :: "jsvalue \<Rightarrow> jsstring option" where
  "renderChild JUndefined = Some []"
| "renderChild JNull = Some []"
| "renderChild (JBool b) = Some []"
| "renderChild (JNum n) = Some (showInt n)"
| "renderChild (JStr s) = Some s"
| "renderChild (JArr xs) = map_option concat (those (map renderChild xs))"
| "renderChild (JObj fs) = None"

definition INVALID_CHILD :: jsstring where
  "INVALID_CHILD = js ''Objects are not valid as a React child''"

definition child :: "jsvalue \<Rightarrow> js_error + jsstring" where
  "child v = (case renderChild v of None \<Rightarrow> Inl (Error INVALID_CHILD) | Some s \<Rightarrow> Inr s)"

text \<open>The view the component returns: the side of the row, the avatar's letter, the
  two paragraphs.\<close>

record bubble =
  justify :: jsstring
  avatar :: jsstring
  bodyText :: jsstring
  stampText :: jsstring

definition MessageBubble :: "jsvalue \<Rightarrow> bool \<Rightarrow> js_error + bubble" where
  "MessageBubble msg isAdmin =
     andThen (getProp msg (js ''text'')) (\<lambda>text.
     andThen (getProp msg (js ''timestamp'')) (\<lambda>timestamp.
     andThen (child text) (\<lambda>shownText.
     andThen (child timestamp) (\<lambda>shownStamp.
       Inr \<lparr>justify = (if isAdmin then js ''justify-end'' else js ''justify-start''),
            avatar = (if isAdmin then js ''A'' else js ''U''),
            bodyText = shownText,
            stampText = shownStamp\<rparr>))))"

text \<open>A message of the data model, as the object the component is handed.\<close>

definition asObject :: "message \<Rightarrow> jsvalue" where
  "asObject m =
     JObj [(js ''sender'', JStr (sender m)), (js ''content'', JStr (content m)),
           (js ''createdAt'', JStr (createdAt m))]"

definition initialPage :: page where
  "initialPage =
     \<lparr>widget = initialWindow Map.empty, dashboard = initialDashboard, requests = []\<rparr>"

section \<open>Basic facts\<close>

lemma USER_neq_ADMIN: "USER \<noteq> ADMIN"
  by (simp add: USER_def ADMIN_def js_def)

lemma trim_blank: "trim (js ''   '') = []"
  by (simp add: trim_def js_def isWhiteSpace_def)

lemma nonBlank_hi: "nonBlank (js ''hi'', t)"
  by (simp add: nonBlank_def truthy_def trim_def js_def isWhiteSpace_def)

lemma nonBlank_blank: "\<not> nonBlank (js ''   '', t)"
  by (simp add: nonBlank_def truthy_def trim_blank)

lemma messages_step: "messages (step e w) = messages w @ shown e"
  by (cases e) (simp_all add: sendMessage_def handleMessage_def)

lemma messages_run: "messages (run es w) = messages w @ concat (map shown es)"
  by (induction es arbitrary: w) (simp_all add: messages_step)

section \<open>Merging a pushed message\<close>

text \<open>
  C1.  In the chat window the local actor is the end user.  A pushed message whose sender
  is \<open>user\<close> leaves the visible sequence as it is; a pushed message whose sender is
  \<open>admin\<close> is appended at the tail, everything before it staying in place.  Neither
  puts anything on the socket.
\<close>

theorem handleMessage_merge:
  "(sender m = USER \<longrightarrow> messages (handleMessage m w) = messages w) \<and>
   (sender m \<noteq> ADMIN \<longrightarrow> handleMessage m w = w) \<and>
   (sender m = ADMIN \<longrightarrow>
      messages (handleMessage m w) = messages w @ [m] \<and>
      length (messages (handleMessage m w)) = Suc (length (messages w)) \<and>
      take (length (messages w)) (messages (handleMessage m w)) = messages w) \<and>
   effects (handleMessage m w) = effects w"
  using USER_neq_ADMIN by (simp add: handleMessage_def)

theorem handleMessage_merge_witness:
  "messages (handleMessage \<lparr>sender = USER, content = js ''Hello'', createdAt = js ''t2''\<rparr>
      ((initialWindow Map.empty)
         \<lparr>messages := [\<lparr>sender = USER, content = js ''Hello'', createdAt = js ''t1''\<rparr>]\<rparr>)) =
     [\<lparr>sender = USER, content = js ''Hello'', createdAt = js ''t1''\<rparr>] \<and>
   messages (handleMessage \<lparr>sender = ADMIN, content = js ''Hi there'', createdAt = js ''t3''\<rparr>
      ((initialWindow Map.empty)
         \<lparr>messages := [\<lparr>sender = USER, content = js ''Hello'', createdAt = js ''t1''\<rparr>]\<rparr>)) =
     [\<lparr>sender = USER, content = js ''Hello'', createdAt = js ''t1''\<rparr>,
      \<lparr>sender = ADMIN, content = js ''Hi there'', createdAt = js ''t3''\<rparr>]"
  using
    handleMessage_merge [of "\<lparr>sender = USER, content = js ''Hello'', createdAt = js ''t2''\<rparr>"
      "(initialWindow Map.empty)
         \<lparr>messages := [\<lparr>sender = USER, content = js ''Hello'', createdAt = js ''t1''\<rparr>]\<rparr>"]
    handleMessage_merge [of "\<lparr>sender = ADMIN, content = js ''Hi there'', createdAt = js ''t3''\<rparr>"
      "(initialWindow Map.empty)
         \<lparr>messages := [\<lparr>sender = USER, content = js ''Hello'', createdAt = js ''t1''\<rparr>]\<rparr>"]
  by (simp add: initialWindow_def)

section \<open>The rendered sequence against the server's\<close>

lemma shown_admin:
  "filter (\<lambda>m. sender m = ADMIN) (concat (map shown tr)) =
   filter (\<lambda>m. sender m = ADMIN) (pushed tr)"
  using USER_neq_ADMIN by (induction tr rule: pushed.induct) simp_all

lemma shown_local:
  "filter (\<lambda>m. sender m \<noteq> ADMIN) (concat (map shown tr)) = originated tr"
  using USER_neq_ADMIN by (induction tr rule: pushed.induct) simp_all

lemma length_shown:
  "length (concat (map shown tr)) =
   length (originated tr) + length (filter (\<lambda>m. sender m = ADMIN) (pushed tr))"
  by (induction tr rule: pushed.induct) simp_all

lemma originated_sender: "m \<in> set (originated tr) \<Longrightarrow> sender m = USER"
  by (induction tr rule: originated.induct) (auto split: if_splits)

lemma shown_explicit:
  "shown e =
     (case e of
        AppendLocal c t \<Rightarrow>
          if trim c \<noteq> [] then [\<lparr>sender = js ''user'', content = trim c, createdAt = t\<rparr>] else []
      | MergeIncoming m \<Rightarrow> if sender m = js ''admin'' then [m] else [])"
  by (cases e) (simp_all add: truthy_def USER_def ADMIN_def)

lemma distinct_by_parts:
  "distinct (filter P xs) \<Longrightarrow> distinct (filter (\<lambda>x. \<not> P x) xs) \<Longrightarrow> distinct xs"
  by (induction xs) (auto split: if_splits)

lemma set_by_parts: "set xs = set (filter P xs) \<union> set (filter (\<lambda>x. \<not> P x) xs)"
  by auto

lemma rendered_set:
  "set (messages (run tr (initialWindow store))) =
     set (originated tr) \<union> set (filter (\<lambda>m. sender m = ADMIN) (pushed tr))"
proof -
  have "set (messages (run tr (initialWindow store))) = set (concat (map shown tr))"
    by (simp add: messages_run initialWindow_def)
  also have "\<dots> = set (filter (\<lambda>m. sender m = ADMIN) (concat (map shown tr))) \<union>
      set (filter (\<lambda>m. sender m \<noteq> ADMIN) (concat (map shown tr)))"
    by (rule set_by_parts)
  also have "\<dots> = set (originated tr) \<union> set (filter (\<lambda>m. sender m = ADMIN) (pushed tr))"
    by (simp only: shown_admin shown_local Un_commute)
  finally show ?thesis .
qed

lemma rendered_set_echo:
  assumes "\<forall>m \<in> set (pushed tr). sender m \<noteq> ADMIN \<longrightarrow> m \<in> set (originated tr)"
  shows "set (messages (run tr (initialWindow store))) = set (pushed tr) \<union> set (unconfirmed tr)"
proof -
  have "set (originated tr) \<union> set (filter (\<lambda>m. sender m = ADMIN) (pushed tr)) =
      set (pushed tr) \<union> set (unconfirmed tr)"
    using assms by (auto simp add: unconfirmed_def)
  then show ?thesis by (simp only: rendered_set)
qed

lemma rendered_distinct:
  assumes "distinct (originated tr)" "distinct (filter (\<lambda>m. sender m = ADMIN) (pushed tr))"
  shows "distinct (messages (run tr (initialWindow store)))"
proof -
  have "distinct (filter (\<lambda>m. sender m = ADMIN) (concat (map shown tr)))"
    using assms(2) by (simp only: shown_admin)
  moreover have "distinct (filter (\<lambda>m. \<not> sender m = ADMIN) (concat (map shown tr)))"
    using assms(1) by (simp only: shown_local)
  ultimately have "distinct (concat (map shown tr))"
    by (rule distinct_by_parts)
  then show ?thesis by (simp add: messages_run initialWindow_def)
qed

text \<open>
  C2, as far as it holds.  After any interleaving of local submissions and deliveries,
  starting from the empty chat window, the rendered sequence is, event by event in the
  order the events reach the window, one entry for each submission whose text is not
  blank and one entry for each pushed message whose sender is \<open>admin\<close>; a pushed
  message with any other sender adds nothing.  So the rendered messages sent by
  \<open>admin\<close> are the pushed ones in the order of the pushes, and the others are the local
  submissions in call order.  As a set, the rendered sequence is the local submissions
  with the pushed \<open>admin\<close> messages; when every other pushed message is the echo of a
  local submission, that is the server's sequence with the unconfirmed local messages.
  No element is there twice when no two local submissions are equal and no two pushed
  \<open>admin\<close> messages are equal.
\<close>

theorem rendered_interleaving:
  "messages (run tr (initialWindow store)) =
     concat (map (\<lambda>e. case e of
        AppendLocal c t \<Rightarrow>
          if trim c \<noteq> [] then [\<lparr>sender = js ''user'', content = trim c, createdAt = t\<rparr>] else []
      | MergeIncoming m \<Rightarrow> if sender m = js ''admin'' then [m] else []) tr) \<and>
   filter (\<lambda>m. sender m = ADMIN) (messages (run tr (initialWindow store))) =
     filter (\<lambda>m. sender m = ADMIN) (pushed tr) \<and>
   filter (\<lambda>m. sender m \<noteq> ADMIN) (messages (run tr (initialWindow store))) = originated tr \<and>
   set (messages (run tr (initialWindow store))) =
     set (originated tr) \<union> set (filter (\<lambda>m. sender m = ADMIN) (pushed tr)) \<and>
   ((\<forall>m \<in> set (pushed tr). sender m \<noteq> ADMIN \<longrightarrow> m \<in> set (originated tr)) \<longrightarrow>
      set (messages (run tr (initialWindow store))) = set (pushed tr) \<union> set (unconfirmed tr)) \<and>
   (distinct (originated tr) \<longrightarrow> distinct (filter (\<lambda>m. sender m = ADMIN) (pushed tr)) \<longrightarrow>
      distinct (messages (run tr (initialWindow store)))) \<and>
   length (messages (run tr (initialWindow store))) =
     length (originated tr) + length (filter (\<lambda>m. sender m = ADMIN) (pushed tr))"
proof (intro conjI impI)
  have "shown = (\<lambda>e. case e of
        AppendLocal c t \<Rightarrow>
          if trim c \<noteq> [] then [\<lparr>sender = js ''user'', content = trim c, createdAt = t\<rparr>] else []
      | MergeIncoming m \<Rightarrow> if sender m = js ''admin'' then [m] else [])"
    by (rule ext) (rule shown_explicit)
  then show "messages (run tr (initialWindow store)) =
     concat (map (\<lambda>e. case e of
        AppendLocal c t \<Rightarrow>
          if trim c \<noteq> [] then [\<lparr>sender = js ''user'', content = trim c, createdAt = t\<rparr>] else []
      | MergeIncoming m \<Rightarrow> if sender m = js ''admin'' then [m] else []) tr)"
    by (simp add: messages_run initialWindow_def)
next
  show "filter (\<lambda>m. sender m = ADMIN) (messages (run tr (initialWindow store))) =
     filter (\<lambda>m. sender m = ADMIN) (pushed tr)"
    by (simp add: messages_run initialWindow_def shown_admin)
next
  show "filter (\<lambda>m. sender m \<noteq> ADMIN) (messages (run tr (initialWindow store))) = originated tr"
    by (simp add: messages_run initialWindow_def shown_local)
next
  show "set (messages (run tr (initialWindow store))) =
     set (originated tr) \<union> set (filter (\<lambda>m. sender m = ADMIN) (pushed tr))"
    by (rule rendered_set)
next
  assume "\<forall>m \<in> set (pushed tr). sender m \<noteq> ADMIN \<longrightarrow> m \<in> set (originated tr)"
  then show "set (messages (run tr (initialWindow store))) = set (pushed tr) \<union> set (unconfirmed tr)"
    by (rule rendered_set_echo)
next
  assume "distinct (originated tr)" "distinct (filter (\<lambda>m. sender m = ADMIN) (pushed tr))"
  then show "distinct (messages (run tr (initialWindow store)))"
    by (rule rendered_distinct)
next
  show "length (messages (run tr (initialWindow store))) =
     length (originated tr) + length (filter (\<lambda>m. sender m = ADMIN) (pushed tr))"
    by (simp add: messages_run initialWindow_def length_shown)
qed

theorem rendered_interleaving_witness:
  "messages (run
     [AppendLocal (js ''Hello'') (js ''10:00:02''),
      MergeIncoming \<lparr>sender = USER, content = js ''Hello'', createdAt = js ''10:00:02''\<rparr>,
      MergeIncoming \<lparr>sender = ADMIN, content = js ''Hi there'', createdAt = js ''10:00:03''\<rparr>]
     (initialWindow Map.empty)) =
     [\<lparr>sender = USER, content = js ''Hello'', createdAt = js ''10:00:02''\<rparr>,
      \<lparr>sender = ADMIN, content = js ''Hi there'', createdAt = js ''10:00:03''\<rparr>] \<and>
   set (messages (run
     [AppendLocal (js ''Hello'') (js ''10:00:02''),
      MergeIncoming \<lparr>sender = USER, content = js ''Hello'', createdAt = js ''10:00:02''\<rparr>,
      MergeIncoming \<lparr>sender = ADMIN, content = js ''Hi there'', createdAt = js ''10:00:03''\<rparr>]
     (initialWindow Map.empty))) =
     set (pushed
       [AppendLocal (js ''Hello'') (js ''10:00:02''),
        MergeIncoming \<lparr>sender = USER, content = js ''Hello'', createdAt = js ''10:00:02''\<rparr>,
        MergeIncoming \<lparr>sender = ADMIN, content = js ''Hi there'', createdAt = js ''10:00:03''\<rparr>]) \<union>
     set (unconfirmed
       [AppendLocal (js ''Hello'') (js ''10:00:02''),
        MergeIncoming \<lparr>sender = USER, content = js ''Hello'', createdAt = js ''10:00:02''\<rparr>,
        MergeIncoming \<lparr>sender = ADMIN, content = js ''Hi there'', createdAt = js ''10:00:03''\<rparr>]) \<and>
   distinct (messages (run
     [AppendLocal (js ''Hello'') (js ''10:00:02''),
      MergeIncoming \<lparr>sender = USER, content = js ''Hello'', createdAt = js ''10:00:02''\<rparr>,
      MergeIncoming \<lparr>sender = ADMIN, content = js ''Hi there'', createdAt = js ''10:00:03''\<rparr>]
     (initialWindow Map.empty)))"
  using rendered_interleaving [of
     "[AppendLocal (js ''Hello'') (js ''10:00:02''),
       MergeIncoming \<lparr>sender = USER, content = js ''Hello'', createdAt = js ''10:00:02''\<rparr>,
       MergeIncoming \<lparr>sender = ADMIN, content = js ''Hi there'', createdAt = js ''10:00:03''\<rparr>]"
     Map.empty]
  by (simp add: initialWindow_def sendMessage_def handleMessage_def unconfirmed_def
      truthy_def trim_def isWhiteSpace_def USER_def ADMIN_def js_def)

text \<open>
  C2 as stated fails, in each of its three parts.  Order: the user submits "Hello"; the
  server has stored the operator's "Hi there" before it stores the user's message, and
  pushes both in its own order; the window shows "Hello" before "Hi there", both
  confirmed.  Duplicates: the server pushes two equal messages of the operator, and the
  window shows both.  Union: the server pushes a message of the user that this window
  did not originate (the same session is open in a second tab), and the window shows
  nothing.
\<close>

theorem reconciled_counterexample:
  "\<not> reconciled
     [AppendLocal (js ''Hello'') (js ''10:00:02''),
      MergeIncoming \<lparr>sender = ADMIN, content = js ''Hi there'', createdAt = js ''10:00:01''\<rparr>,
      MergeIncoming \<lparr>sender = USER, content = js ''Hello'', createdAt = js ''10:00:02''\<rparr>] \<and>
   messages (run
     [AppendLocal (js ''Hello'') (js ''10:00:02''),
      MergeIncoming \<lparr>sender = ADMIN, content = js ''Hi there'', createdAt = js ''10:00:01''\<rparr>,
      MergeIncoming \<lparr>sender = USER, content = js ''Hello'', createdAt = js ''10:00:02''\<rparr>]
     (initialWindow Map.empty)) =
     [\<lparr>sender = USER, content = js ''Hello'', createdAt = js ''10:00:02''\<rparr>,
      \<lparr>sender = ADMIN, content = js ''Hi there'', createdAt = js ''10:00:01''\<rparr>] \<and>
   pushed
     [AppendLocal (js ''Hello'') (js ''10:00:02''),
      MergeIncoming \<lparr>sender = ADMIN, content = js ''Hi there'', createdAt = js ''10:00:01''\<rparr>,
      MergeIncoming \<lparr>sender = USER, content = js ''Hello'', createdAt = js ''10:00:02''\<rparr>] =
     [\<lparr>sender = ADMIN, content = js ''Hi there'', createdAt = js ''10:00:01''\<rparr>,
      \<lparr>sender = USER, content = js ''Hello'', createdAt = js ''10:00:02''\<rparr>] \<and>
   \<not> reconciled
     [MergeIncoming \<lparr>sender = ADMIN, content = js ''ok'', createdAt = js ''10:00:01''\<rparr>,
      MergeIncoming \<lparr>sender = ADMIN, content = js ''ok'', createdAt = js ''10:00:01''\<rparr>] \<and>
   messages (run
     [MergeIncoming \<lparr>sender = ADMIN, content = js ''ok'', createdAt = js ''10:00:01''\<rparr>,
      MergeIncoming \<lparr>sender = ADMIN, content = js ''ok'', createdAt = js ''10:00:01''\<rparr>]
     (initialWindow Map.empty)) =
     [\<lparr>sender = ADMIN, content = js ''ok'', createdAt = js ''10:00:01''\<rparr>,
      \<lparr>sender = ADMIN, content = js ''ok'', createdAt = js ''10:00:01''\<rparr>] \<and>
   \<not> reconciled
     [MergeIncoming \<lparr>sender = USER, content = js ''Hello'', createdAt = js ''10:00:02''\<rparr>] \<and>
   messages (run
     [MergeIncoming \<lparr>sender = USER, content = js ''Hello'', createdAt = js ''10:00:02''\<rparr>]
     (initialWindow Map.empty)) = []"
  by (simp add: reconciled_def initialWindow_def sendMessage_def handleMessage_def
      unconfirmed_def truthy_def trim_def isWhiteSpace_def USER_def ADMIN_def js_def)

section \<open>Local submissions\<close>

lemma appendLocal_fields:
  "messages (appendLocal c t w) =
     messages w @ (if nonBlank (c, t) then [entry USER (c, t)] else [])"
  "effects (appendLocal c t w) =
     effects w @
     (if nonBlank (c, t) then [SocketEmit (User_message (currentSessionId w) (trim c))] else [])"
  "currentSessionId (appendLocal c t w) = currentSessionId w"
  by (simp_all add: appendLocal_def sendMessage_def nonBlank_def entry_def)

lemma appendLocals_fields:
  "messages (appendLocals cs w) = messages w @ map (entry USER) (filter nonBlank cs) \<and>
   effects (appendLocals cs w) =
     effects w @ map (\<lambda>call. SocketEmit (User_message (currentSessionId w) (trim (fst call))))
       (filter nonBlank cs) \<and>
   currentSessionId (appendLocals cs w) = currentSessionId w"
  by (induction cs w rule: appendLocals.induct) (simp_all add: appendLocal_fields)

lemma reply_fields:
  "sessionMessages (reply c t d) =
     sessionMessages d @
     (if nonBlank (c, t) \<and> selectedSession d \<noteq> None then [entry ADMIN (c, t)] else [])"
  "emitted (reply c t d) =
     emitted d @
     (case selectedSession d of
        None \<Rightarrow> []
      | Some sel \<Rightarrow> if nonBlank (c, t) then [Admin_message (sessionId sel) (trim c)] else [])"
  "selectedSession (reply c t d) = selectedSession d"
  by (simp_all add: reply_def sendReply_def nonBlank_def entry_def split: option.splits)

lemma replies_selected:
  "selectedSession d = Some sel \<Longrightarrow>
   sessionMessages (replies cs d) = sessionMessages d @ map (entry ADMIN) (filter nonBlank cs) \<and>
   emitted (replies cs d) =
     emitted d @ map (\<lambda>call. Admin_message (sessionId sel) (trim (fst call))) (filter nonBlank cs)"
  by (induction cs d rule: replies.induct) (simp_all add: reply_fields)

lemma replies_unselected:
  "selectedSession d = None \<Longrightarrow>
   sessionMessages (replies cs d) = sessionMessages d \<and> emitted (replies cs d) = emitted d"
  by (induction cs d rule: replies.induct) (simp_all add: reply_fields)

text \<open>
  C3, as far as it holds.  In the chat window (\<open>sendMessage\<close>) a sequence of submissions
  adds one entry per call whose text is not blank after trimming, in call order, and
  emits one \<open>user_message\<close> per such call.  In the dashboard (\<open>sendReply\<close>) the same
  holds while a conversation is selected; with none selected no call adds or emits
  anything.  A call with blank text adds nothing and emits nothing in either view.
\<close>

theorem local_sends:
  "messages (appendLocals cs w) = messages w @ map (entry USER) (filter nonBlank cs) \<and>
   length (messages (appendLocals cs w)) = length (messages w) + length (filter nonBlank cs) \<and>
   effects (appendLocals cs w) =
     effects w @ map (\<lambda>call. SocketEmit (User_message (currentSessionId w) (trim (fst call))))
       (filter nonBlank cs) \<and>
   (selectedSession d = Some sel \<longrightarrow>
      sessionMessages (replies cs d) = sessionMessages d @ map (entry ADMIN) (filter nonBlank cs) \<and>
      length (sessionMessages (replies cs d)) =
        length (sessionMessages d) + length (filter nonBlank cs) \<and>
      emitted (replies cs d) =
        emitted d @ map (\<lambda>call. Admin_message (sessionId sel) (trim (fst call)))
          (filter nonBlank cs)) \<and>
   (selectedSession d = None \<longrightarrow>
      sessionMessages (replies cs d) = sessionMessages d \<and> emitted (replies cs d) = emitted d) \<and>
   (\<not> nonBlank (c, t) \<longrightarrow>
      messages (appendLocal c t w) = messages w \<and> effects (appendLocal c t w) = effects w \<and>
      sessionMessages (reply c t d) = sessionMessages d \<and> emitted (reply c t d) = emitted d)"
proof (intro conjI impI)
  assume "selectedSession d = Some sel"
  from replies_selected [OF this, of cs]
  show "sessionMessages (replies cs d) = sessionMessages d @ map (entry ADMIN) (filter nonBlank cs)"
    and "length (sessionMessages (replies cs d)) =
        length (sessionMessages d) + length (filter nonBlank cs)"
    and "emitted (replies cs d) =
        emitted d @ map (\<lambda>call. Admin_message (sessionId sel) (trim (fst call)))
          (filter nonBlank cs)"
    by simp_all
next
  assume "selectedSession d = None"
  from replies_unselected [OF this, of cs]
  show "sessionMessages (replies cs d) = sessionMessages d"
    and "emitted (replies cs d) = emitted d"
    by simp_all
next
  assume "\<not> nonBlank (c, t)"
  then show "messages (appendLocal c t w) = messages w"
    and "effects (appendLocal c t w) = effects w"
    and "sessionMessages (reply c t d) = sessionMessages d"
    and "emitted (reply c t d) = emitted d"
    by (simp_all add: appendLocal_fields reply_fields split: option.splits)
qed (simp_all add: appendLocals_fields)

theorem local_sends_witness:
  "messages (appendLocals [(js ''hi'', js ''t1''), (js ''   '', js ''t2''), (js ''hi'', js ''t3'')]
      (initialWindow Map.empty)) =
     [entry USER (js ''hi'', js ''t1''), entry USER (js ''hi'', js ''t3'')] \<and>
   sessionMessages (replies [(js ''hi'', js ''t1''), (js ''   '', js ''t2'')]
      (initialDashboard\<lparr>selectedSession := Some \<lparr>sessionId = js ''s1'', summary = JNull\<rparr>\<rparr>)) =
     [entry ADMIN (js ''hi'', js ''t1'')] \<and>
   sessionMessages (replies [(js ''hi'', js ''t1'')] initialDashboard) = [] \<and>
   effects (appendLocal (js ''   '') (js ''t2'') (initialWindow Map.empty)) = []"
  using
    local_sends [of "[(js ''hi'', js ''t1''), (js ''   '', js ''t2''), (js ''hi'', js ''t3'')]"
      "initialWindow Map.empty"
      "initialDashboard\<lparr>selectedSession := Some \<lparr>sessionId = js ''s1'', summary = JNull\<rparr>\<rparr>"
      "\<lparr>sessionId = js ''s1'', summary = JNull\<rparr>" "js ''   ''" "js ''t2''"]
    local_sends [of "[(js ''hi'', js ''t1''), (js ''   '', js ''t2'')]"
      "initialWindow Map.empty"
      "initialDashboard\<lparr>selectedSession := Some \<lparr>sessionId = js ''s1'', summary = JNull\<rparr>\<rparr>"
      "\<lparr>sessionId = js ''s1'', summary = JNull\<rparr>" "js ''   ''" "js ''t2''"]
    local_sends [of "[(js ''hi'', js ''t1'')]" "initialWindow Map.empty" initialDashboard
      "\<lparr>sessionId = js ''s1'', summary = JNull\<rparr>" "js ''   ''" "js ''t2''"]
  by (simp add: nonBlank_hi nonBlank_blank initialWindow_def initialDashboard_def)

text \<open>
  C3 as stated fails in the dashboard: \<open>sendReply\<close> also asks for a selected
  conversation, and the dashboard starts with none.  One call with the text "hi" leaves
  the sequence empty.
\<close>

theorem sendReply_counterexample:
  "length (sessionMessages (replies [(js ''hi'', js ''t1'')] initialDashboard)) \<noteq>
   length (filter nonBlank [(js ''hi'', js ''t1'')])"
  by (simp add: nonBlank_hi reply_fields initialDashboard_def)

section \<open>Replacing the roster\<close>

lemma handleSessionsList_sessions: "sessions (handleSessionsList snap d) = snap"
  by (simp add: handleSessionsList_def Let_def split: option.splits)

lemma find_absent:
  "k \<notin> sessionId ` set snap \<Longrightarrow> find (\<lambda>s. sessionId s = k) snap = None"
  by (auto simp add: find_None_iff)

lemma find_present:
  assumes "k \<in> sessionId ` set snap"
  shows "\<exists>u. find (\<lambda>s. sessionId s = k) snap = Some u \<and> u \<in> set snap \<and> sessionId u = k"
proof -
  from assms have "find (\<lambda>s. sessionId s = k) snap \<noteq> None"
    by (auto simp add: find_None_iff)
  then obtain u where u: "find (\<lambda>s. sessionId s = k) snap = Some u"
    by blast
  then have "u \<in> set snap \<and> sessionId u = k"
    by (auto simp add: find_Some_iff)
  with u show ?thesis by blast
qed

text \<open>
  C4, as far as it holds.  The roster becomes the snapshot.  When the identifier of the
  selected conversation is not in the snapshot, the selection stays what it was; when
  it is, the selection becomes the first entry of the snapshot with that identifier;
  when nothing is selected, nothing is selected afterwards.
\<close>

theorem roster_replacement:
  "sessions (handleSessionsList snap d) = snap \<and>
   (selectedSession d = Some sel \<longrightarrow> sessionId sel \<notin> sessionId ` set snap \<longrightarrow>
      selectedSession (handleSessionsList snap d) = Some sel) \<and>
   (selectedSession d = Some sel \<longrightarrow> sessionId sel \<in> sessionId ` set snap \<longrightarrow>
      (\<exists>u. selectedSession (handleSessionsList snap d) = Some u \<and>
           find (\<lambda>s. sessionId s = sessionId sel) snap = Some u \<and>
           u \<in> set snap \<and> sessionId u = sessionId sel)) \<and>
   (selectedSession d = None \<longrightarrow> selectedSession (handleSessionsList snap d) = None)"
proof (intro conjI impI)
  show "sessions (handleSessionsList snap d) = snap"
    by (rule handleSessionsList_sessions)
next
  assume "selectedSession d = Some sel" "sessionId sel \<notin> sessionId ` set snap"
  then show "selectedSession (handleSessionsList snap d) = Some sel"
    by (simp add: handleSessionsList_def Let_def find_absent)
next
  assume sel: "selectedSession d = Some sel" and "sessionId sel \<in> sessionId ` set snap"
  then obtain u where u: "find (\<lambda>s. sessionId s = sessionId sel) snap = Some u"
    "u \<in> set snap" "sessionId u = sessionId sel"
    using find_present by blast
  with sel show "\<exists>u. selectedSession (handleSessionsList snap d) = Some u \<and>
           find (\<lambda>s. sessionId s = sessionId sel) snap = Some u \<and>
           u \<in> set snap \<and> sessionId u = sessionId sel"
    by (simp add: handleSessionsList_def Let_def)
next
  assume "selectedSession d = None"
  then show "selectedSession (handleSessionsList snap d) = None"
    by (simp add: handleSessionsList_def Let_def)
qed

theorem roster_replacement_witness:
  "selectedSession (handleSessionsList
      [\<lparr>sessionId = js ''s2'', summary = JNull\<rparr>, \<lparr>sessionId = js ''s1'', summary = JBool True\<rparr>]
      (initialDashboard\<lparr>selectedSession := Some \<lparr>sessionId = js ''s1'', summary = JNull\<rparr>\<rparr>)) =
     Some \<lparr>sessionId = js ''s1'', summary = JBool True\<rparr> \<and>
   selectedSession (handleSessionsList [\<lparr>sessionId = js ''s2'', summary = JNull\<rparr>]
      (initialDashboard\<lparr>selectedSession := Some \<lparr>sessionId = js ''s1'', summary = JNull\<rparr>\<rparr>)) =
     Some \<lparr>sessionId = js ''s1'', summary = JNull\<rparr> \<and>
   selectedSession (handleSessionsList [\<lparr>sessionId = js ''s2'', summary = JNull\<rparr>] initialDashboard) = None"
  using
    roster_replacement [of
      "[\<lparr>sessionId = js ''s2'', summary = JNull\<rparr>, \<lparr>sessionId = js ''s1'', summary = JBool True\<rparr>]"
      "initialDashboard\<lparr>selectedSession := Some \<lparr>sessionId = js ''s1'', summary = JNull\<rparr>\<rparr>"
      "\<lparr>sessionId = js ''s1'', summary = JNull\<rparr>"]
    roster_replacement [of "[\<lparr>sessionId = js ''s2'', summary = JNull\<rparr>]"
      "initialDashboard\<lparr>selectedSession := Some \<lparr>sessionId = js ''s1'', summary = JNull\<rparr>\<rparr>"
      "\<lparr>sessionId = js ''s1'', summary = JNull\<rparr>"]
    roster_replacement [of "[\<lparr>sessionId = js ''s2'', summary = JNull\<rparr>]" initialDashboard
      "\<lparr>sessionId = js ''s1'', summary = JNull\<rparr>"]
  by (simp add: initialDashboard_def js_def)

text \<open>
  C4 as stated fails where the selected conversation is missing from the snapshot: the
  listener has no branch that clears the selection, and the stale entry stays selected.
\<close>

theorem selection_counterexample:
  "selectedSession (handleSessionsList [\<lparr>sessionId = js ''s2'', summary = JNull\<rparr>]
      (initialDashboard\<lparr>selectedSession := Some \<lparr>sessionId = js ''s1'', summary = JNull\<rparr>\<rparr>)) \<noteq> None"
  by (simp add: handleSessionsList_def initialDashboard_def js_def)

section \<open>The session identifier\<close>

lemma newSessionId_truthy: "truthy (newSessionId now rnd)"
  by (simp add: truthy_def newSessionId_def js_def)

lemma initSession_stored:
  "localStorage w SESSION_KEY = Some s \<Longrightarrow> truthy s \<Longrightarrow>
   initSession now rnd w =
     w\<lparr>currentSessionId := Some s, effects := effects w @ [SocketEmit (Init_session s)]\<rparr>"
  by (simp add: initSession_def Let_def)

lemma initSession_fresh:
  "localStorage w SESSION_KEY = None \<or> localStorage w SESSION_KEY = Some [] \<Longrightarrow>
   initSession now rnd w =
     w\<lparr>localStorage := (localStorage w)(SESSION_KEY \<mapsto> newSessionId now rnd),
       effects := effects w @
         [StorageSet SESSION_KEY (newSessionId now rnd),
          SocketEmit (Init_session (newSessionId now rnd))],
       currentSessionId := Some (newSessionId now rnd)\<rparr>"
  by (auto simp add: initSession_def truthy_def Let_def)

lemma initSession_key:
  "\<exists>s. localStorage (initSession now rnd w) SESSION_KEY = Some s \<and> truthy s \<and>
       currentSessionId (initSession now rnd w) = Some s"
proof (cases "localStorage w SESSION_KEY")
  case None
  then show ?thesis by (simp add: initSession_fresh newSessionId_truthy)
next
  case (Some s)
  show ?thesis
  proof (cases "truthy s")
    case True
    with Some show ?thesis by (simp add: initSession_stored)
  next
    case False
    with Some have "localStorage w SESSION_KEY = Some []" by (simp add: truthy_def)
    then show ?thesis by (simp add: initSession_fresh newSessionId_truthy)
  qed
qed

lemma initSession_twice:
  "currentSessionId (initSession now' rnd' (initSession now rnd w)) =
     currentSessionId (initSession now rnd w) \<and>
   localStorage (initSession now' rnd' (initSession now rnd w)) =
     localStorage (initSession now rnd w) \<and>
   effects (initSession now' rnd' (initSession now rnd w)) =
     effects (initSession now rnd w) @
     [SocketEmit (Init_session (the (currentSessionId (initSession now rnd w))))]"
proof -
  obtain s where s: "localStorage (initSession now rnd w) SESSION_KEY = Some s" "truthy s"
    "currentSessionId (initSession now rnd w) = Some s"
    using initSession_key by blast
  show ?thesis by (simp add: initSession_stored [OF s(1) s(2)] s(3))
qed

text \<open>
  C5.  When the key holds a non-empty identifier, the effect adopts it, writes nothing
  to storage and emits \<open>init_session\<close> with it.  When the key is missing (or holds the
  empty string, which \<open>!sessionId\<close> treats alike), the effect builds an identifier,
  stores it under the key and only then emits \<open>init_session\<close> with it.  A second
  activation, whatever the clock and the random suffix, adopts the identifier of the
  first and leaves the storage as it is.
\<close>

theorem session_identity:
  "(localStorage w SESSION_KEY = Some s \<and> truthy s \<longrightarrow>
      currentSessionId (initSession now rnd w) = Some s \<and>
      localStorage (initSession now rnd w) = localStorage w \<and>
      effects (initSession now rnd w) = effects w @ [SocketEmit (Init_session s)]) \<and>
   (localStorage w SESSION_KEY = None \<or> localStorage w SESSION_KEY = Some [] \<longrightarrow>
      currentSessionId (initSession now rnd w) = Some (newSessionId now rnd) \<and>
      localStorage (initSession now rnd w) =
        (localStorage w)(SESSION_KEY \<mapsto> newSessionId now rnd) \<and>
      effects (initSession now rnd w) =
        effects w @
        [StorageSet SESSION_KEY (newSessionId now rnd),
         SocketEmit (Init_session (newSessionId now rnd))]) \<and>
   currentSessionId (initSession now' rnd' (initSession now rnd w)) =
     currentSessionId (initSession now rnd w) \<and>
   localStorage (initSession now' rnd' (initSession now rnd w)) =
     localStorage (initSession now rnd w) \<and>
   effects (initSession now' rnd' (initSession now rnd w)) =
     effects (initSession now rnd w) @
     [SocketEmit (Init_session (the (currentSessionId (initSession now rnd w))))]"
proof (intro conjI impI)
  assume "localStorage w SESSION_KEY = Some s \<and> truthy s"
  then have "initSession now rnd w =
     w\<lparr>currentSessionId := Some s, effects := effects w @ [SocketEmit (Init_session s)]\<rparr>"
    by (simp add: initSession_stored)
  then show "currentSessionId (initSession now rnd w) = Some s"
    and "localStorage (initSession now rnd w) = localStorage w"
    and "effects (initSession now rnd w) = effects w @ [SocketEmit (Init_session s)]"
    by simp_all
next
  assume "localStorage w SESSION_KEY = None \<or> localStorage w SESSION_KEY = Some []"
  note eq = initSession_fresh [OF this, of now rnd]
  show "currentSessionId (initSession now rnd w) = Some (newSessionId now rnd)"
    and "localStorage (initSession now rnd w) =
        (localStorage w)(SESSION_KEY \<mapsto> newSessionId now rnd)"
    and "effects (initSession now rnd w) =
        effects w @
        [StorageSet SESSION_KEY (newSessionId now rnd),
         SocketEmit (Init_session (newSessionId now rnd))]"
    by (simp_all add: eq)
qed (simp_all add: initSession_twice)

lemma newSessionId_example:
  "newSessionId 1703426439123 (js ''k7m8n9p2q'') = js ''session_1703426439123_k7m8n9p2q''"
  by (simp add: newSessionId_def js_def showNat.simps)

theorem session_identity_witness:
  "currentSessionId (initSession 1703426439123 (js ''k7m8n9p2q'')
      (initialWindow [SESSION_KEY \<mapsto> js ''session_1_abc''])) = Some (js ''session_1_abc'') \<and>
   effects (initSession 1703426439123 (js ''k7m8n9p2q'')
      (initialWindow [SESSION_KEY \<mapsto> js ''session_1_abc''])) =
     [SocketEmit (Init_session (js ''session_1_abc''))] \<and>
   effects (initSession 1703426439123 (js ''k7m8n9p2q'') (initialWindow Map.empty)) =
     [StorageSet SESSION_KEY (js ''session_1703426439123_k7m8n9p2q''),
      SocketEmit (Init_session (js ''session_1703426439123_k7m8n9p2q''))] \<and>
   effects (initSession 1703426439123 (js ''k7m8n9p2q'') (initialWindow [SESSION_KEY \<mapsto> []])) =
     [StorageSet SESSION_KEY (js ''session_1703426439123_k7m8n9p2q''),
      SocketEmit (Init_session (js ''session_1703426439123_k7m8n9p2q''))]"
  using
    session_identity [of "initialWindow [SESSION_KEY \<mapsto> []]"
      "js ''session_1_abc''" 1703426439123 "js ''k7m8n9p2q''" 0 "[]"]
    session_identity [of "initialWindow [SESSION_KEY \<mapsto> js ''session_1_abc'']"
      "js ''session_1_abc''" 1703426439123 "js ''k7m8n9p2q''" 0 "[]"]
    session_identity [of "initialWindow Map.empty"
      "js ''session_1_abc''" 1703426439123 "js ''k7m8n9p2q''" 0 "[]"]
  by (simp add: initialWindow_def truthy_def newSessionId_example) (simp add: js_def)

section \<open>The shared socket\<close>

lemma reconnect_bounded:
  "length (snd (reconnect opts n outcomes)) \<le> reconnectionAttempts opts - n"
proof (induction outcomes arbitrary: n)
  case Nil
  show ?case by simp
next
  case (Cons success later)
  from Cons [of "Suc n"]
  have "n < reconnectionAttempts opts \<Longrightarrow>
      Suc (length (snd (reconnect opts (Suc n) later))) \<le> reconnectionAttempts opts - n"
    by arith
  then show ?case by auto
qed

lemma reconnect_delays:
  "set (snd (reconnect opts n outcomes)) \<subseteq> {reconnectionDelay opts}"
  by (induction outcomes arbitrary: n) auto

lemma reconnect_success:
  "fst (reconnect opts n (replicate k False @ True # later)) =
     (if reconnection opts \<and> n + k < reconnectionAttempts opts then Connected else Disconnected)"
  by (induction k arbitrary: n) auto

lemma reconnect_exhausted:
  "reconnectionAttempts opts \<le> n + k \<Longrightarrow>
   fst (reconnect opts n (replicate k False @ later)) = Disconnected"
proof (induction k arbitrary: n)
  case 0
  then show ?case by (cases later) simp_all
next
  case (Suc k)
  then show ?case by simp
qed

text \<open>
  C6.  The socket is created with the transports \<open>websocket\<close> and \<open>polling\<close> in this
  order: websocket is attempted first, and polling is attempted only when websocket is
  blocked.  Reconnection is switched on, with 5 attempts and a delay of 1000 ms: after
  a loss of the transport, whatever the attempts give, at most 5 are made, each after
  a wait of 1000 ms; a success within the first 5 leads back to \<open>connected\<close>, and 5
  failures lead to \<open>disconnected\<close>.
\<close>

theorem socket_configuration:
  "transports (snd socket) = [js ''websocket'', js ''polling''] \<and>
   tryTransports blocked (transports (snd socket)) =
     (if \<not> blocked (js ''websocket'') then ([js ''websocket''], Some (js ''websocket''))
      else if \<not> blocked (js ''polling'')
        then ([js ''websocket'', js ''polling''], Some (js ''polling''))
      else ([js ''websocket'', js ''polling''], None)) \<and>
   reconnection (snd socket) \<and>
   reconnectionAttempts (snd socket) = 5 \<and>
   reconnectionDelay (snd socket) = 1000 \<and>
   length (snd (reconnect (snd socket) 0 outcomes)) \<le> 5 \<and>
   set (snd (reconnect (snd socket) 0 outcomes)) \<subseteq> {1000} \<and>
   fst (reconnect (snd socket) 0 (replicate k False @ True # later)) =
     (if k < 5 then Connected else Disconnected) \<and>
   fst (reconnect (snd socket) 0 (replicate 5 False @ later)) = Disconnected \<and>
   snd (reconnect (snd socket) 0 (replicate 5 False @ later)) = replicate 5 1000"
proof -
  have opts: "reconnection (snd socket)" "reconnectionAttempts (snd socket) = 5"
    "reconnectionDelay (snd socket) = 1000"
    "transports (snd socket) = [js ''websocket'', js ''polling'']"
    by (simp_all add: socket_def)
  have "length (snd (reconnect (snd socket) 0 outcomes)) \<le> 5"
    using reconnect_bounded [of "snd socket" 0 outcomes] by (simp add: opts)
  moreover have "set (snd (reconnect (snd socket) 0 outcomes)) \<subseteq> {1000}"
    using reconnect_delays [of "snd socket" 0 outcomes] by (simp add: opts)
  moreover have "fst (reconnect (snd socket) 0 (replicate k False @ True # later)) =
     (if k < 5 then Connected else Disconnected)"
    by (simp add: reconnect_success opts)
  moreover have "fst (reconnect (snd socket) 0 (replicate 5 False @ later)) = Disconnected"
    by (rule reconnect_exhausted) (simp add: opts)
  moreover have "snd (reconnect (snd socket) 0 (replicate 5 False @ later)) = replicate 5 1000"
    by (cases later) (simp_all add: opts numeral_eq_Suc)
  moreover have "tryTransports blocked (transports (snd socket)) =
     (if \<not> blocked (js ''websocket'') then ([js ''websocket''], Some (js ''websocket''))
      else if \<not> blocked (js ''polling'')
        then ([js ''websocket'', js ''polling''], Some (js ''polling''))
      else ([js ''websocket'', js ''polling''], None))"
    by (simp add: opts)
  ultimately show ?thesis by (simp add: opts)
qed

section \<open>Failures of the completion service\<close>

lemma keyMissing_iff:
  "keyMissing svc \<longleftrightarrow>
   apiKey svc = None \<or> apiKey svc = Some [] \<or> apiKey svc = Some PLACEHOLDER_KEY"
  by (auto simp add: keyMissing_def truthy_def split: option.splits)

lemma generateResponse_frame:
  "widget (snd (generateResponse svc fetch u h p)) = widget p \<and>
   dashboard (snd (generateResponse svc fetch u h p)) = dashboard p"
  by (simp add: generateResponse_def Let_def)

lemma generateResponse_no_key:
  "keyMissing svc \<Longrightarrow> generateResponse svc fetch u h p = (Inl (Error KEY_NOT_CONFIGURED), p)"
  by (simp add: generateResponse_def)

lemma generateResponse_not_ok:
  "\<not> keyMissing svc \<Longrightarrow> \<not> ok res \<Longrightarrow>
   fst (generateResponse svc (\<lambda>req. Inr res) u h p) =
     (case textBody res of
        Inl e \<Rightarrow> Inl e
      | Inr errorText \<Rightarrow> Inl (Error (API_ERROR_PREFIX @ showNat (status res))))"
  by (simp add: generateResponse_def Let_def andThen_def split: sum.splits)

text \<open>
  C7.  With the key missing, empty or equal to the placeholder, \<open>generateResponse\<close>
  throws "OpenAI API key is not configured" and makes no request.  With a response
  that is not \<open>ok\<close> it throws; when the response's text can be read, what it throws is
  "OpenAI API error: " followed by the status.  In every case the chat window and the
  dashboard, with their message sequences and the roster, are what they were.
\<close>

theorem generateResponse_fails:
  "(apiKey svc = None \<or> apiKey svc = Some [] \<or> apiKey svc = Some PLACEHOLDER_KEY \<longrightarrow>
      generateResponse svc fetch u h p = (Inl (Error KEY_NOT_CONFIGURED), p)) \<and>
   (\<not> ok res \<longrightarrow> (\<exists>e. fst (generateResponse svc (\<lambda>req. Inr res) u h p) = Inl e)) \<and>
   (\<not> keyMissing svc \<longrightarrow> \<not> ok res \<longrightarrow> textBody res = Inr errorText \<longrightarrow>
      fst (generateResponse svc (\<lambda>req. Inr res) u h p) =
        Inl (Error (API_ERROR_PREFIX @ showNat (status res)))) \<and>
   widget (snd (generateResponse svc fetch u h p)) = widget p \<and>
   dashboard (snd (generateResponse svc fetch u h p)) = dashboard p"
proof (intro conjI impI)
  assume "apiKey svc = None \<or> apiKey svc = Some [] \<or> apiKey svc = Some PLACEHOLDER_KEY"
  then have "keyMissing svc" by (simp add: keyMissing_iff)
  then show "generateResponse svc fetch u h p = (Inl (Error KEY_NOT_CONFIGURED), p)"
    by (rule generateResponse_no_key)
next
  assume bad: "\<not> ok res"
  show "\<exists>e. fst (generateResponse svc (\<lambda>req. Inr res) u h p) = Inl e"
  proof (cases "keyMissing svc")
    case True
    then show ?thesis by (simp add: generateResponse_no_key)
  next
    case False
    from generateResponse_not_ok [OF False bad] show ?thesis
      by (cases "textBody res") simp_all
  qed
next
  assume "\<not> keyMissing svc" "\<not> ok res" "textBody res = Inr errorText"
  then show "fst (generateResponse svc (\<lambda>req. Inr res) u h p) =
        Inl (Error (API_ERROR_PREFIX @ showNat (status res)))"
    by (simp add: generateResponse_not_ok)
qed (simp_all add: generateResponse_frame)

lemma keyMissing_example: "\<not> keyMissing (newChatGPTService (Some (js ''sk-test'')))"
  by (simp add: keyMissing_def newChatGPTService_def truthy_def PLACEHOLDER_KEY_def js_def)

lemma showNat_401: "showNat 401 = js ''401''"
  by (simp add: showNat.simps js_def)

theorem generateResponse_fails_witness:
  "generateResponse (newChatGPTService None) (\<lambda>req. Inl TypeError) (js ''hello'') None initialPage =
     (Inl (Error KEY_NOT_CONFIGURED), initialPage) \<and>
   generateResponse (newChatGPTService (Some PLACEHOLDER_KEY)) (\<lambda>req. Inl TypeError) (js ''hello'')
       None initialPage =
     (Inl (Error KEY_NOT_CONFIGURED), initialPage) \<and>
   fst (generateResponse (newChatGPTService (Some (js ''sk-test'')))
       (\<lambda>req. Inr \<lparr>status = 401, ok = False, jsonBody = Inl SyntaxError,
                    textBody = Inr (js ''Unauthorized'')\<rparr>)
       (js ''hello'') None initialPage) =
     Inl (Error (API_ERROR_PREFIX @ js ''401''))"
  using
    generateResponse_fails [of "newChatGPTService None" "\<lambda>req. Inl TypeError" "js ''hello''" None
      initialPage "\<lparr>status = 401, ok = False, jsonBody = Inl SyntaxError,
                    textBody = Inr (js ''Unauthorized'')\<rparr>" "js ''Unauthorized''"]
    generateResponse_fails [of "newChatGPTService (Some PLACEHOLDER_KEY)" "\<lambda>req. Inl TypeError"
      "js ''hello''" None
      initialPage "\<lparr>status = 401, ok = False, jsonBody = Inl SyntaxError,
                    textBody = Inr (js ''Unauthorized'')\<rparr>" "js ''Unauthorized''"]
    generateResponse_fails [of "newChatGPTService (Some (js ''sk-test''))" "\<lambda>req. Inl TypeError"
      "js ''hello''" None
      initialPage "\<lparr>status = 401, ok = False, jsonBody = Inl SyntaxError,
                    textBody = Inr (js ''Unauthorized'')\<rparr>" "js ''Unauthorized''"]
    keyMissing_example
  by (simp add: newChatGPTService_def showNat_401)

section \<open>The retrieval interface\<close>

text \<open>
  C8.  Whatever response \<open>fetch\<close> resolves to, \<open>getChats\<close> and \<open>getChatMessages\<close>
  return what \<open>res.json()\<close> gives for it; the status and the \<open>ok\<close> flag play no part.
  A rejection of \<open>fetch\<close> is passed on as it is.
\<close>

theorem retrieval_returns_body:
  "(fetch (httpGet (js ''http://localhost:4000/api/chats'')) = Inr res \<longrightarrow>
      getChats fetch = jsonBody res) \<and>
   (fetch (httpGet (js ''http://localhost:4000/api/chats/'' @ sid)) = Inr res \<longrightarrow>
      getChatMessages fetch sid = jsonBody res) \<and>
   getChats (\<lambda>req. Inr (res\<lparr>status := st, ok := b\<rparr>)) = jsonBody res \<and>
   getChatMessages (\<lambda>req. Inr (res\<lparr>status := st, ok := b\<rparr>)) sid = jsonBody res \<and>
   (fetch (httpGet (js ''http://localhost:4000/api/chats'')) = Inl e \<longrightarrow> getChats fetch = Inl e) \<and>
   (fetch (httpGet (js ''http://localhost:4000/api/chats/'' @ sid)) = Inl e \<longrightarrow>
      getChatMessages fetch sid = Inl e)"
  by (simp add: getChats_def getChatMessages_def andThen_def)

theorem retrieval_returns_body_witness:
  "getChats (\<lambda>req. Inr \<lparr>status = 404, ok = False,
       jsonBody = Inr (JObj [(js ''error'', JStr (js ''Not found''))]),
       textBody = Inl TypeError\<rparr>) =
     Inr (JObj [(js ''error'', JStr (js ''Not found''))]) \<and>
   getChatMessages (\<lambda>req. Inr \<lparr>status = 500, ok = False,
       jsonBody = Inr (JObj [(js ''error'', JStr (js ''Server error''))]),
       textBody = Inl TypeError\<rparr>) (js ''s1'') =
     Inr (JObj [(js ''error'', JStr (js ''Server error''))]) \<and>
   getChats (\<lambda>req. Inl TypeError) = Inl TypeError"
  using
    retrieval_returns_body [where fetch =
      "\<lambda>req. Inr \<lparr>status = 404, ok = False,
         jsonBody = Inr (JObj [(js ''error'', JStr (js ''Not found''))]),
         textBody = Inl TypeError\<rparr>" and res =
      "\<lparr>status = 404, ok = False,
         jsonBody = Inr (JObj [(js ''error'', JStr (js ''Not found''))]),
         textBody = Inl TypeError\<rparr>" and sid = "js ''s1''"
      and st = 404 and b = False and e = TypeError]
    retrieval_returns_body [where fetch =
      "\<lambda>req. Inr \<lparr>status = 500, ok = False,
         jsonBody = Inr (JObj [(js ''error'', JStr (js ''Server error''))]),
         textBody = Inl TypeError\<rparr>" and res =
      "\<lparr>status = 500, ok = False,
         jsonBody = Inr (JObj [(js ''error'', JStr (js ''Server error''))]),
         textBody = Inl TypeError\<rparr>" and sid = "js ''s1''"
      and st = 500 and b = False and e = TypeError]
    retrieval_returns_body [where fetch = "\<lambda>req. Inl TypeError" and sid = "js ''s1''"
      and e = TypeError]
  by simp

section \<open>The message bubble\<close>

lemma bubble_of_object:
  "MessageBubble (JObj fs) isAdmin =
     andThen (child (case map_of fs (js ''text'') of None \<Rightarrow> JUndefined | Some v \<Rightarrow> v))
       (\<lambda>shownText.
     andThen (child (case map_of fs (js ''timestamp'') of None \<Rightarrow> JUndefined | Some v \<Rightarrow> v))
       (\<lambda>shownStamp.
       Inr \<lparr>justify = (if isAdmin then js ''justify-end'' else js ''justify-start''),
            avatar = (if isAdmin then js ''A'' else js ''U''),
            bodyText = shownText, stampText = shownStamp\<rparr>))"
  by (simp add: MessageBubble_def andThen_def)

text \<open>
  C9.  The two paragraphs of the bubble are the properties \<open>text\<close> and \<open>timestamp\<close> of
  the message: two objects that agree on these two properties give the same bubble, and
  two strings there are shown as they are.  A message of the data model, with \<open>sender\<close>,
  \<open>content\<close> and \<open>createdAt\<close>, has neither property, and both paragraphs are empty.
\<close>

theorem bubble_reads_text_and_timestamp:
  "(map_of fs (js ''text'') = Some (JStr b) \<longrightarrow> map_of fs (js ''timestamp'') = Some (JStr s) \<longrightarrow>
      MessageBubble (JObj fs) isAdmin =
        Inr \<lparr>justify = (if isAdmin then js ''justify-end'' else js ''justify-start''),
             avatar = (if isAdmin then js ''A'' else js ''U''),
             bodyText = b, stampText = s\<rparr>) \<and>
   (map_of fs (js ''text'') = map_of fs' (js ''text'') \<longrightarrow>
    map_of fs (js ''timestamp'') = map_of fs' (js ''timestamp'') \<longrightarrow>
      MessageBubble (JObj fs) isAdmin = MessageBubble (JObj fs') isAdmin) \<and>
   MessageBubble (asObject m) isAdmin =
     Inr \<lparr>justify = (if isAdmin then js ''justify-end'' else js ''justify-start''),
          avatar = (if isAdmin then js ''A'' else js ''U''),
          bodyText = [], stampText = []\<rparr>"
proof (intro conjI impI)
  assume "map_of fs (js ''text'') = Some (JStr b)" "map_of fs (js ''timestamp'') = Some (JStr s)"
  then show "MessageBubble (JObj fs) isAdmin =
        Inr \<lparr>justify = (if isAdmin then js ''justify-end'' else js ''justify-start''),
             avatar = (if isAdmin then js ''A'' else js ''U''),
             bodyText = b, stampText = s\<rparr>"
    by (simp add: bubble_of_object andThen_def child_def)
next
  assume "map_of fs (js ''text'') = map_of fs' (js ''text'')"
    "map_of fs (js ''timestamp'') = map_of fs' (js ''timestamp'')"
  then show "MessageBubble (JObj fs) isAdmin = MessageBubble (JObj fs') isAdmin"
    by (simp add: bubble_of_object)
next
  show "MessageBubble (asObject m) isAdmin =
     Inr \<lparr>justify = (if isAdmin then js ''justify-end'' else js ''justify-start''),
          avatar = (if isAdmin then js ''A'' else js ''U''),
          bodyText = [], stampText = []\<rparr>"
    by (simp add: asObject_def bubble_of_object andThen_def child_def js_def)
qed

theorem bubble_reads_text_and_timestamp_witness:
  "MessageBubble (JObj [(js ''text'', JStr (js ''Hi'')), (js ''timestamp'', JStr (js ''10:00'')),
       (js ''content'', JStr (js ''other''))]) True =
     Inr \<lparr>justify = js ''justify-end'', avatar = js ''A'', bodyText = js ''Hi'',
          stampText = js ''10:00''\<rparr> \<and>
   MessageBubble (JObj [(js ''timestamp'', JStr (js ''10:00'')), (js ''text'', JStr (js ''Hi''))]) True =
     MessageBubble (JObj [(js ''text'', JStr (js ''Hi'')), (js ''timestamp'', JStr (js ''10:00'')),
       (js ''content'', JStr (js ''other''))]) True"
  using
    bubble_reads_text_and_timestamp [of
      "[(js ''text'', JStr (js ''Hi'')), (js ''timestamp'', JStr (js ''10:00'')),
        (js ''content'', JStr (js ''other''))]" "js ''Hi''" "js ''10:00''" True
      "[(js ''text'', JStr (js ''Hi'')), (js ''timestamp'', JStr (js ''10:00'')),
        (js ''content'', JStr (js ''other''))]"]
    bubble_reads_text_and_timestamp [of
      "[(js ''timestamp'', JStr (js ''10:00'')), (js ''text'', JStr (js ''Hi''))]"
      "js ''Hi''" "js ''10:00''" True
      "[(js ''text'', JStr (js ''Hi'')), (js ''timestamp'', JStr (js ''10:00'')),
        (js ''content'', JStr (js ''other''))]"]
  by (simp add: js_def)

section \<open>The completion request\<close>

lemma length_sliceLast: "length (sliceLast n xs) = min n (length xs)"
  by (simp add: sliceLast_def)

lemma sliceLast_suffix: "sliceLast n xs = drop (length xs - min n (length xs)) xs"
  by (simp add: sliceLast_def min_def)

lemma key_configured:
  "apiKey svc = Some k \<Longrightarrow> k \<noteq> [] \<Longrightarrow> k \<noteq> js ''your_openai_api_key_here'' \<Longrightarrow>
   \<not> keyMissing svc"
  by (simp add: keyMissing_def truthy_def PLACEHOLDER_KEY_def)

lemma generateResponse_request:
  "\<not> keyMissing svc \<Longrightarrow>
   \<exists>req rb. requests (snd (generateResponse svc fetch u hist p)) = requests p @ [req] \<and>
     url req = apiUrl svc \<and> body req = Some rb \<and>
     chat_messages rb =
       JObj [(js ''role'', JStr (js ''system'')),
             (js ''content'', JStr (js
    ''You are a helpful assistant. Provide concise, helpful responses to user questions.''))] #
       sliceLast 5 (case hist of None \<Rightarrow> [] | Some h \<Rightarrow> h) @
       [JObj [(js ''role'', JStr (js ''user'')), (js ''content'', JStr u)]]"
  by (simp add: generateResponse_def Let_def)

text \<open>
  C10.  When the key is configured, \<open>generateResponse\<close> makes one request, to the
  service's address.  The messages of its body are: the object with role \<open>system\<close> and
  the fixed prompt; then the last \<open>min 5 (length h)\<close> entries of the history \<open>h\<close>, in
  their order; then the object with role \<open>user\<close> whose content is the text given.
  That is \<open>min 5 (length h) + 2\<close> messages.  With the history left out there are two.
\<close>

theorem request_messages:
  "apiKey svc = Some k \<longrightarrow> k \<noteq> [] \<longrightarrow> k \<noteq> js ''your_openai_api_key_here'' \<longrightarrow>
   (\<exists>req rb. requests (snd (generateResponse svc fetch u (Some h) p)) = requests p @ [req] \<and>
      url req = apiUrl svc \<and> body req = Some rb \<and>
      chat_messages rb =
        JObj [(js ''role'', JStr (js ''system'')),
              (js ''content'', JStr (js
    ''You are a helpful assistant. Provide concise, helpful responses to user questions.''))] #
        drop (length h - min 5 (length h)) h @
        [JObj [(js ''role'', JStr (js ''user'')), (js ''content'', JStr u)]] \<and>
      length (chat_messages rb) = min 5 (length h) + 2) \<and>
   (\<exists>req rb. requests (snd (generateResponse svc fetch u None p)) = requests p @ [req] \<and>
      body req = Some rb \<and>
      chat_messages rb =
        [JObj [(js ''role'', JStr (js ''system'')),
               (js ''content'', JStr (js
    ''You are a helpful assistant. Provide concise, helpful responses to user questions.''))],
         JObj [(js ''role'', JStr (js ''user'')), (js ''content'', JStr u)]])"
proof (intro impI conjI)
  assume "apiKey svc = Some k" "k \<noteq> []" "k \<noteq> js ''your_openai_api_key_here''"
  then have key: "\<not> keyMissing svc"
    by (rule key_configured)
  from generateResponse_request [OF key, of "fetch" u "Some h" p]
  obtain req rb where r:
    "requests (snd (generateResponse svc fetch u (Some h) p)) = requests p @ [req]"
    "url req = apiUrl svc" "body req = Some rb"
    "chat_messages rb =
       JObj [(js ''role'', JStr (js ''system'')),
             (js ''content'', JStr (js
    ''You are a helpful assistant. Provide concise, helpful responses to user questions.''))] #
       sliceLast 5 h @ [JObj [(js ''role'', JStr (js ''user'')), (js ''content'', JStr u)]]"
    by auto
  have "length (chat_messages rb) = min 5 (length h) + 2"
    by (simp add: r(4) length_sliceLast)
  with r show "\<exists>req rb. requests (snd (generateResponse svc fetch u (Some h) p)) = requests p @ [req] \<and>
      url req = apiUrl svc \<and> body req = Some rb \<and>
      chat_messages rb =
        JObj [(js ''role'', JStr (js ''system'')),
              (js ''content'', JStr (js
    ''You are a helpful assistant. Provide concise, helpful responses to user questions.''))] #
        drop (length h - min 5 (length h)) h @
        [JObj [(js ''role'', JStr (js ''user'')), (js ''content'', JStr u)]] \<and>
      length (chat_messages rb) = min 5 (length h) + 2"
    using sliceLast_suffix [of 5 h] by auto
  from generateResponse_request [OF key, of "fetch" u None p]
  show "\<exists>req rb. requests (snd (generateResponse svc fetch u None p)) = requests p @ [req] \<and>
      body req = Some rb \<and>
      chat_messages rb =
        [JObj [(js ''role'', JStr (js ''system'')),
               (js ''content'', JStr (js
    ''You are a helpful assistant. Provide concise, helpful responses to user questions.''))],
         JObj [(js ''role'', JStr (js ''user'')), (js ''content'', JStr u)]]"
    by (auto simp add: sliceLast_def)
qed

theorem request_messages_witness:
  "map (map_option chat_messages \<circ> body)
     (requests (snd (generateResponse (newChatGPTService (Some (js ''sk-test'')))
        (\<lambda>req. Inl TypeError) (js ''and now?'')
        (Some
          [JObj [(js ''role'', JStr (js ''user'')), (js ''content'', JStr (js ''q1''))],
           JObj [(js ''role'', JStr (js ''assistant'')), (js ''content'', JStr (js ''a1''))],
           JObj [(js ''role'', JStr (js ''user'')), (js ''content'', JStr (js ''q2''))],
           JObj [(js ''role'', JStr (js ''assistant'')), (js ''content'', JStr (js ''a2''))],
           JObj [(js ''role'', JStr (js ''user'')), (js ''content'', JStr (js ''q3''))],
           JObj [(js ''role'', JStr (js ''assistant'')), (js ''content'', JStr (js ''a3''))],
           JObj [(js ''role'', JStr (js ''user'')), (js ''content'', JStr (js ''q4''))]])
        initialPage))) =
   [Some
     [JObj [(js ''role'', JStr (js ''system'')),
            (js ''content'', JStr (js
    ''You are a helpful assistant. Provide concise, helpful responses to user questions.''))],
      JObj [(js ''role'', JStr (js ''user'')), (js ''content'', JStr (js ''q2''))],
      JObj [(js ''role'', JStr (js ''assistant'')), (js ''content'', JStr (js ''a2''))],
      JObj [(js ''role'', JStr (js ''user'')), (js ''content'', JStr (js ''q3''))],
      JObj [(js ''role'', JStr (js ''assistant'')), (js ''content'', JStr (js ''a3''))],
      JObj [(js ''role'', JStr (js ''user'')), (js ''content'', JStr (js ''q4''))],
      JObj [(js ''role'', JStr (js ''user'')), (js ''content'', JStr (js ''and now?''))]]]"
  using
    request_messages [where svc = "newChatGPTService (Some (js ''sk-test''))"
      and k = "js ''sk-test''" and fetch = "\<lambda>req. Inl TypeError" and u = "js ''and now?''"
      and p = initialPage and h =
        "[JObj [(js ''role'', JStr (js ''user'')), (js ''content'', JStr (js ''q1''))],
          JObj [(js ''role'', JStr (js ''assistant'')), (js ''content'', JStr (js ''a1''))],
          JObj [(js ''role'', JStr (js ''user'')), (js ''content'', JStr (js ''q2''))],
          JObj [(js ''role'', JStr (js ''assistant'')), (js ''content'', JStr (js ''a2''))],
          JObj [(js ''role'', JStr (js ''user'')), (js ''content'', JStr (js ''q3''))],
          JObj [(js ''role'', JStr (js ''assistant'')), (js ''content'', JStr (js ''a3''))],
          JObj [(js ''role'', JStr (js ''user'')), (js ''content'', JStr (js ''q4''))]]"]
  by (auto simp add: initialPage_def newChatGPTService_def js_def)

end
